theory Spec2Isabelle
  imports Complex_Main "HOL-Library.Word"
begin

unbundle bit_operations_syntax

section \<open>Data model of \<^verbatim>\<open>mc_hash_rng.h\<close>\<close>

text \<open>
  \<^verbatim>\<open>MCHR_UINT\<close> is an unsigned 32-bit integer and \<^verbatim>\<open>MCHR_INT\<close> a signed one. Both are
  32-bit words here: \<open>+\<close>, \<open>-\<close> and \<open>*\<close> wrap modulo \<open>2 ^ 32\<close>, \<open>unat\<close> reads a word as
  unsigned and \<open>sint\<close> as two's complement, \<open><\<close> compares unsigned and \<open><s\<close> signed.
  A conversion between the two types keeps the bit pattern. Signed arithmetic that leaves
  the range of \<^verbatim>\<open>int\<close> is undefined in C: the signed operations below return an error
  value there.

  An index buffer \<^verbatim>\<open>(index_buffer, len)\<close> with \<^verbatim>\<open>len % sizeof(MCHR_UINT) == 0\<close> is the list
  of its \<^verbatim>\<open>len / 4\<close> words, in memory order; the assertion of \<^verbatim>\<open>mchr_get_hash_uint\<close> on
  \<^verbatim>\<open>len\<close> holds for every such list. The local variables \<^verbatim>\<open>i\<close>, \<^verbatim>\<open>zeros\<close>, \<^verbatim>\<open>bits\<close> and
  \<^verbatim>\<open>bits_left\<close> of type \<^verbatim>\<open>MCHR_INT\<close> stay between 0 and 32 and are integers.
\<close>

type_synonym mchr_uint = "32 word"
type_synonym mchr_int = "32 word"

text \<open>
  A failed \<^verbatim>\<open>assert\<close>, the undefined \<^verbatim>\<open>__builtin_clz(0)\<close> and a signed overflow are error
  values. A function with a loop that has no bound returns an \<open>option\<close>, \<open>None\<close> standing
  for a call that never returns.
\<close>

datatype error = Assertion_Failed | Clz_Of_Zero | Signed_Overflow

subsection \<open>Constants\<close>

definition MCHR_PRIMES :: "mchr_uint list" where
  "MCHR_PRIMES = [1, 0x9E3779B1, 0x85EBCA77, 0xC2B2AE3D, 0x27D4EB2F, 0x165667B1]"

definition MCHR_PRIMES_LEN :: int where
  "MCHR_PRIMES_LEN = 6"

definition MCHR_BIT_NOISE1 :: mchr_uint where
  "MCHR_BIT_NOISE1 = 0x68E31DA4"

definition MCHR_BIT_NOISE2 :: mchr_uint where
  "MCHR_BIT_NOISE2 = 0xB5297A4D"

definition MCHR_BIT_NOISE3 :: mchr_uint where
  "MCHR_BIT_NOISE3 = 0x1B56C4E9"

subsection \<open>The hash: \<^verbatim>\<open>mchr_get_hash_uint\<close>\<close>

text \<open>
  The \<^verbatim>\<open>while (len > 0)\<close> loop: \<open>num\<close> is the accumulator, \<open>i\<close> the index into the table
  and the list what \<^verbatim>\<open>ptr\<close> has still to read.
\<close>

fun hash_loop :: "mchr_uint \<Rightarrow> int \<Rightarrow> mchr_uint list \<Rightarrow> mchr_uint" where
  "hash_loop num i [] = num"
| "hash_loop num i (w # ptr) =
     (let i_next = (i + 1) mod MCHR_PRIMES_LEN
      in hash_loop (num + (w * MCHR_PRIMES ! nat i + MCHR_PRIMES ! nat i_next)) i_next ptr)"

text \<open>The statements after the loop, from \<^verbatim>\<open>num *= MCHR_BIT_NOISE1\<close> to the last shift.\<close>

definition hash_finish :: "mchr_uint \<Rightarrow> mchr_uint \<Rightarrow> mchr_uint" where
  "hash_finish num0 seed =
     (let num = num0 * MCHR_BIT_NOISE1;
          num = num + seed;
          num = num XOR drop_bit 8 num;
          num = num + MCHR_BIT_NOISE2;
          num = num XOR push_bit 8 num;
          num = num * MCHR_BIT_NOISE3;
          num = num XOR drop_bit 8 num
      in num)"

definition mchr_get_hash_uint :: "mchr_uint list \<Rightarrow> mchr_uint \<Rightarrow> mchr_uint" where
  "mchr_get_hash_uint index_buffer seed = hash_finish (hash_loop 0 0 index_buffer) seed"

subsection \<open>Counting leading zeros\<close>

text \<open>
  \<^verbatim>\<open>clz\<close> is the compiler's count of the leading zero bits of a 32-bit value:
  \<^verbatim>\<open>__builtin_clz\<close>, or under MSVC 31 minus the index of the highest set bit that
  \<^verbatim>\<open>_BitScanReverse\<close> finds. \<open>leading_zeros n value\<close> counts the zero bits from bit
  \<open>n - 1\<close> downwards. \<^verbatim>\<open>__builtin_clz(0)\<close> is undefined: an error value here (the MSVC
  function returns 32 there).
\<close>

fun leading_zeros :: "nat \<Rightarrow> mchr_uint \<Rightarrow> int" where
  "leading_zeros 0 value = 0"
| "leading_zeros (Suc n) value = (if bit value n then 0 else 1 + leading_zeros n value)"

definition clz :: "mchr_uint \<Rightarrow> error + int" where
  "clz value = (if value = 0 then Inl Clz_Of_Zero else Inr (leading_zeros 32 value))"

text \<open>
  The function \<^verbatim>\<open>clz\<close> of the MSVC branch: \<^verbatim>\<open>_BitScanReverse\<close> searches from the highest
  bit downwards, stores the index of the first set bit in \<^verbatim>\<open>leading_zero\<close> and returns
  nonzero, or returns zero when no bit is set.
\<close>

fun bit_scan_reverse :: "nat \<Rightarrow> mchr_uint \<Rightarrow> nat option" where
  "bit_scan_reverse 0 value = None"
| "bit_scan_reverse (Suc n) value =
     (if bit value n then Some n else bit_scan_reverse n value)"

definition clz_msvc :: "mchr_uint \<Rightarrow> int" where
  "clz_msvc value =
     (case bit_scan_reverse 32 value of
        Some leading_zero \<Rightarrow> 31 - int leading_zero
      | None \<Rightarrow> 32)"

subsection \<open>Outcomes\<close>

type_synonym 'a outcome = "(error + 'a) option"

definition and_then :: "'a outcome \<Rightarrow> ('a \<Rightarrow> 'b outcome) \<Rightarrow> 'b outcome" where
  "and_then m f = (case m of None \<Rightarrow> None | Some (Inl e) \<Rightarrow> Some (Inl e) | Some (Inr v) \<Rightarrow> f v)"

text \<open>An outcome other than the error of \<^verbatim>\<open>clz\<close> called with 0.\<close>

definition clz_defined :: "'a outcome \<Rightarrow> bool" where
  "clz_defined m = (m \<noteq> Some (Inl Clz_Of_Zero))"

subsection \<open>The bounded sampler: \<^verbatim>\<open>mchr_get_hash_uint_under_limit\<close>\<close>

text \<open>
  The inner loop \<^verbatim>\<open>while (bits_left >= bits)\<close>. It returns \<open>Some (Some result)\<close> where the
  C function returns \<open>result\<close> from inside the loop, \<open>Some None\<close> where the loop ends
  with every window rejected, and \<open>None\<close> where it would not end.
\<close>

partial_function (option) window_loop ::
  "mchr_uint \<Rightarrow> int \<Rightarrow> int \<Rightarrow> mchr_uint \<Rightarrow> mchr_uint \<Rightarrow> mchr_uint option option" where
  "window_loop value bits_left bits bit_mask upper_bound =
     (if bits_left \<ge> bits then
        (let value = drop_bit (nat bits) value;
             result = value AND bit_mask
         in if result < upper_bound then Some (Some result)
            else window_loop value (bits_left - bits) bits bit_mask upper_bound)
      else Some None)"

text \<open>The outer loop \<^verbatim>\<open>do { ... seed += 1; } while (1)\<close>.\<close>

partial_function (option) draw_loop ::
  "mchr_uint list \<Rightarrow> mchr_uint \<Rightarrow> mchr_uint \<Rightarrow> int \<Rightarrow> int \<Rightarrow> mchr_uint \<Rightarrow> mchr_uint option" where
  "draw_loop index_buffer seed upper_bound zeros bits bit_mask =
     (let value = mchr_get_hash_uint index_buffer seed;
          result = value AND bit_mask
      in if result < upper_bound then Some result
         else Option.bind (window_loop value zeros bits bit_mask upper_bound)
                (\<lambda>found. case found of
                     Some result \<Rightarrow> Some result
                   | None \<Rightarrow> draw_loop index_buffer (seed + 1) upper_bound zeros bits bit_mask))"

text \<open>
  \<^verbatim>\<open>bits = CHAR_BIT * sizeof(MCHR_UINT) - zeros\<close> and \<^verbatim>\<open>mask = 0xFFFFFFFFU >> zeros\<close>; the
  variable \<^verbatim>\<open>mask\<close> is \<open>bit_mask\<close> here.
\<close>

definition window_bits :: "int \<Rightarrow> int" where
  "window_bits zeros = 8 * 4 - zeros"

definition window_mask :: "int \<Rightarrow> mchr_uint" where
  "window_mask zeros = drop_bit (nat zeros) 0xFFFFFFFF"

definition mchr_get_hash_uint_under_limit ::
  "mchr_uint list \<Rightarrow> mchr_uint \<Rightarrow> mchr_uint \<Rightarrow> mchr_uint outcome" where
  "mchr_get_hash_uint_under_limit index_buffer seed upper_bound =
     (if upper_bound < 2 then Some (Inr 0)
      else case clz upper_bound of
             Inl e \<Rightarrow> Some (Inl e)
           | Inr zeros \<Rightarrow>
               (let bits = window_bits zeros;
                    bit_mask = window_mask zeros
                in map_option Inr (draw_loop index_buffer seed upper_bound zeros bits bit_mask)))"

subsection \<open>Floats\<close>

text \<open>
  A \<^verbatim>\<open>float\<close> is the real number it denotes. \<open>float_of_uint\<close> is the conversion of an
  unsigned integer to \<^verbatim>\<open>float\<close>: exact up to 24 significant bits, and beyond that
  rounded to 24 bits, to the nearest value and to the even one on a tie. The products by
  \<^verbatim>\<open>1.0f\<close> and the quotients by \<open>2 ^ 24\<close> and \<open>2 ^ 25\<close> are exact, and so is
  \<^verbatim>\<open>result * 2.0 - 1.0\<close>, a multiple of \<open>1 / 2 ^ 24\<close> between \<open>-1\<close> and \<open>1\<close>.
\<close>

definition float_of_uint :: "mchr_uint \<Rightarrow> real" where
  "float_of_uint num =
     (let k = unat num;
          e = nat (32 - leading_zeros 32 num) - 24;
          q = k div 2 ^ e;
          r = k mod 2 ^ e
      in if 2 * r < 2 ^ e \<or> (2 * r = 2 ^ e \<and> even q) then real (q * 2 ^ e)
         else real ((q + 1) * 2 ^ e))"

definition mchr_priv_uint_to_zero_one :: "mchr_uint \<Rightarrow> error + real" where
  "mchr_priv_uint_to_zero_one num =
     (let max_range = push_bit 24 1 :: mchr_uint
      in if \<not> num \<le> max_range then Inl Assertion_Failed
         else if num \<ge> max_range then Inr 1
         else (let num = num AND (max_range - 1);
                   result = float_of_uint num * 1 / float_of_uint max_range
               in Inr result))"

definition mchr_priv_uint_to_neg_one_one :: "mchr_uint \<Rightarrow> error + real" where
  "mchr_priv_uint_to_neg_one_one num =
     (let max_range = push_bit 25 1 :: mchr_uint
      in if \<not> num < max_range then Inl Assertion_Failed
         else (let num = num AND (max_range - 1);
                   result = float_of_uint num * 1 / float_of_uint max_range
               in Inr (result * 2 - 1)))"

subsection \<open>Unsigned integer result\<close>

text \<open>
  The coordinates of the 1d to 4d functions are the words \<^verbatim>\<open>&pos\<close> or \<^verbatim>\<open>array\<close> points to,
  in the order of the initialiser.
\<close>

definition mchr_get_1d_hash_uint :: "mchr_int \<Rightarrow> mchr_uint \<Rightarrow> mchr_uint" where
  "mchr_get_1d_hash_uint pos seed =
     mchr_get_hash_uint [pos] seed"

definition mchr_get_2d_hash_uint :: "mchr_int \<Rightarrow> mchr_int \<Rightarrow> mchr_uint \<Rightarrow> mchr_uint" where
  "mchr_get_2d_hash_uint posX posY seed =
     (let array = [posX, posY] in mchr_get_hash_uint array seed)"

definition mchr_get_3d_hash_uint :: "mchr_int \<Rightarrow> mchr_int \<Rightarrow> mchr_int \<Rightarrow> mchr_uint \<Rightarrow> mchr_uint" where
  "mchr_get_3d_hash_uint posX posY posZ seed =
     (let array = [posX, posY, posZ] in mchr_get_hash_uint array seed)"

definition mchr_get_4d_hash_uint :: "mchr_int \<Rightarrow> mchr_int \<Rightarrow> mchr_int \<Rightarrow> mchr_int \<Rightarrow> mchr_uint \<Rightarrow> mchr_uint" where
  "mchr_get_4d_hash_uint posX posY posZ posT seed =
     (let array = [posX, posY, posZ, posT] in mchr_get_hash_uint array seed)"

subsection \<open>Unsigned integer in range\<close>

text \<open>The parameters \<^verbatim>\<open>min\<close> and \<^verbatim>\<open>max\<close> are \<open>minv\<close> and \<open>maxv\<close>.\<close>

definition mchr_get_hash_uint_in_range ::
  "mchr_uint list \<Rightarrow> mchr_uint \<Rightarrow> mchr_uint \<Rightarrow> mchr_uint \<Rightarrow> mchr_uint outcome" where
  "mchr_get_hash_uint_in_range index_buffer seed minv maxv =
     (if \<not> minv < maxv then Some (Inl Assertion_Failed)
      else and_then (mchr_get_hash_uint_under_limit index_buffer seed (maxv - minv + 1))
             (\<lambda>r. Some (Inr (r + minv))))"

definition mchr_get_1d_hash_uint_in_range ::
  "mchr_int \<Rightarrow> mchr_uint \<Rightarrow> mchr_uint \<Rightarrow> mchr_uint \<Rightarrow> mchr_uint outcome" where
  "mchr_get_1d_hash_uint_in_range pos seed minv maxv =
     (if \<not> minv < maxv then Some (Inl Assertion_Failed)
      else and_then (mchr_get_hash_uint_under_limit [pos] seed (maxv - minv + 1))
             (\<lambda>r. Some (Inr (r + minv))))"

definition mchr_get_2d_hash_uint_in_range ::
  "mchr_int \<Rightarrow> mchr_int \<Rightarrow> mchr_uint \<Rightarrow> mchr_uint \<Rightarrow> mchr_uint \<Rightarrow> mchr_uint outcome" where
  "mchr_get_2d_hash_uint_in_range posX posY seed minv maxv =
     (if \<not> minv < maxv then Some (Inl Assertion_Failed)
      else (let array = [posX, posY]
            in and_then (mchr_get_hash_uint_under_limit array seed (maxv - minv + 1))
                 (\<lambda>r. Some (Inr (r + minv)))))"

definition mchr_get_3d_hash_uint_in_range ::
  "mchr_int \<Rightarrow> mchr_int \<Rightarrow> mchr_int \<Rightarrow> mchr_uint \<Rightarrow> mchr_uint \<Rightarrow> mchr_uint \<Rightarrow> mchr_uint outcome" where
  "mchr_get_3d_hash_uint_in_range posX posY posZ seed minv maxv =
     (if \<not> minv < maxv then Some (Inl Assertion_Failed)
      else (let array = [posX, posY, posZ]
            in and_then (mchr_get_hash_uint_under_limit array seed (maxv - minv + 1))
                 (\<lambda>r. Some (Inr (r + minv)))))"

definition mchr_get_4d_hash_uint_in_range ::
  "mchr_int \<Rightarrow> mchr_int \<Rightarrow> mchr_int \<Rightarrow> mchr_int \<Rightarrow> mchr_uint \<Rightarrow> mchr_uint \<Rightarrow> mchr_uint \<Rightarrow> mchr_uint outcome" where
  "mchr_get_4d_hash_uint_in_range posX posY posZ posT seed minv maxv =
     (if \<not> minv < maxv then Some (Inl Assertion_Failed)
      else (let array = [posX, posY, posZ, posT]
            in and_then (mchr_get_hash_uint_under_limit array seed (maxv - minv + 1))
                 (\<lambda>r. Some (Inr (r + minv)))))"

subsection \<open>Integer in range\<close>

text \<open>
  \<^verbatim>\<open>min\<close> and \<^verbatim>\<open>max\<close> are signed here: the assertion compares them with \<open><s\<close>, and
  \<^verbatim>\<open>max - min + 1\<close> is a subtraction and an addition of \<^verbatim>\<open>int\<close>, each undefined where
  its exact result is not an \<^verbatim>\<open>int\<close>. The bound then becomes the unsigned parameter with
  the same bits, the sum with \<^verbatim>\<open>min\<close> is unsigned, and the result is the \<^verbatim>\<open>int\<close> with the
  same bits.
\<close>

definition int_sub :: "mchr_int \<Rightarrow> mchr_int \<Rightarrow> error + mchr_int" where
  "int_sub a b =
     (if - (2 ^ 31) \<le> sint a - sint b \<and> sint a - sint b < 2 ^ 31 then Inr (a - b)
      else Inl Signed_Overflow)"

definition int_add :: "mchr_int \<Rightarrow> mchr_int \<Rightarrow> error + mchr_int" where
  "int_add a b =
     (if - (2 ^ 31) \<le> sint a + sint b \<and> sint a + sint b < 2 ^ 31 then Inr (a + b)
      else Inl Signed_Overflow)"

text \<open>The argument \<^verbatim>\<open>max - min + 1\<close>.\<close>

definition int_range_bound :: "mchr_int \<Rightarrow> mchr_int \<Rightarrow> error + mchr_uint" where
  "int_range_bound minv maxv =
     (case int_sub maxv minv of
        Inl e \<Rightarrow> Inl e
      | Inr difference \<Rightarrow> int_add difference 1)"

definition mchr_get_hash_int_in_range ::
  "mchr_uint list \<Rightarrow> mchr_uint \<Rightarrow> mchr_int \<Rightarrow> mchr_int \<Rightarrow> mchr_int outcome" where
  "mchr_get_hash_int_in_range index_buffer seed minv maxv =
     (if \<not> minv <s maxv then Some (Inl Assertion_Failed)
      else case int_range_bound minv maxv of
             Inl e \<Rightarrow> Some (Inl e)
           | Inr upper_bound \<Rightarrow>
               and_then (mchr_get_hash_uint_under_limit index_buffer seed upper_bound)
                 (\<lambda>r. Some (Inr (r + minv))))"

definition mchr_get_1d_hash_int_in_range ::
  "mchr_int \<Rightarrow> mchr_uint \<Rightarrow> mchr_int \<Rightarrow> mchr_int \<Rightarrow> mchr_int outcome" where
  "mchr_get_1d_hash_int_in_range pos seed minv maxv =
     (if \<not> minv <s maxv then Some (Inl Assertion_Failed)
      else case int_range_bound minv maxv of
             Inl e \<Rightarrow> Some (Inl e)
           | Inr upper_bound \<Rightarrow>
               and_then (mchr_get_hash_uint_under_limit [pos] seed upper_bound)
                 (\<lambda>r. Some (Inr (r + minv))))"

definition mchr_get_2d_hash_int_in_range ::
  "mchr_int \<Rightarrow> mchr_int \<Rightarrow> mchr_uint \<Rightarrow> mchr_int \<Rightarrow> mchr_int \<Rightarrow> mchr_int outcome" where
  "mchr_get_2d_hash_int_in_range posX posY seed minv maxv =
     (if \<not> minv <s maxv then Some (Inl Assertion_Failed)
      else (let array = [posX, posY]
            in case int_range_bound minv maxv of
                 Inl e \<Rightarrow> Some (Inl e)
               | Inr upper_bound \<Rightarrow>
                   and_then (mchr_get_hash_uint_under_limit array seed upper_bound)
                     (\<lambda>r. Some (Inr (r + minv)))))"

definition mchr_get_3d_hash_int_in_range ::
  "mchr_int \<Rightarrow> mchr_int \<Rightarrow> mchr_int \<Rightarrow> mchr_uint \<Rightarrow> mchr_int \<Rightarrow> mchr_int \<Rightarrow> mchr_int outcome" where
  "mchr_get_3d_hash_int_in_range posX posY posZ seed minv maxv =
     (if \<not> minv <s maxv then Some (Inl Assertion_Failed)
      else (let array = [posX, posY, posZ]
            in case int_range_bound minv maxv of
                 Inl e \<Rightarrow> Some (Inl e)
               | Inr upper_bound \<Rightarrow>
                   and_then (mchr_get_hash_uint_under_limit array seed upper_bound)
                     (\<lambda>r. Some (Inr (r + minv)))))"

definition mchr_get_4d_hash_int_in_range ::
  "mchr_int \<Rightarrow> mchr_int \<Rightarrow> mchr_int \<Rightarrow> mchr_int \<Rightarrow> mchr_uint \<Rightarrow> mchr_int \<Rightarrow> mchr_int \<Rightarrow> mchr_int outcome" where
  "mchr_get_4d_hash_int_in_range posX posY posZ posT seed minv maxv =
     (if \<not> minv <s maxv then Some (Inl Assertion_Failed)
      else (let array = [posX, posY, posZ, posT]
            in case int_range_bound minv maxv of
                 Inl e \<Rightarrow> Some (Inl e)
               | Inr upper_bound \<Rightarrow>
                   and_then (mchr_get_hash_uint_under_limit array seed upper_bound)
                     (\<lambda>r. Some (Inr (r + minv)))))"

subsection \<open>Float from 0.0 to 1.0\<close>

text \<open>The bound \<^verbatim>\<open>(1 << 24) + 1\<close> is \<open>push_bit 24 1 + 1\<close>.\<close>

definition mchr_get_hash_zero_to_one :: "mchr_uint list \<Rightarrow> mchr_uint \<Rightarrow> real outcome" where
  "mchr_get_hash_zero_to_one index_buffer seed =
     and_then (mchr_get_hash_uint_under_limit index_buffer seed (push_bit 24 1 + 1))
       (\<lambda>result. Some (mchr_priv_uint_to_zero_one result))"

definition mchr_get_1d_hash_zero_to_one :: "mchr_int \<Rightarrow> mchr_uint \<Rightarrow> real outcome" where
  "mchr_get_1d_hash_zero_to_one pos seed =
     and_then (mchr_get_hash_uint_under_limit [pos] seed (push_bit 24 1 + 1))
       (\<lambda>result. Some (mchr_priv_uint_to_zero_one result))"

definition mchr_get_2d_hash_zero_to_one :: "mchr_int \<Rightarrow> mchr_int \<Rightarrow> mchr_uint \<Rightarrow> real outcome" where
  "mchr_get_2d_hash_zero_to_one posX posY seed =
     (let array = [posX, posY]
      in and_then (mchr_get_hash_uint_under_limit array seed (push_bit 24 1 + 1))
          (\<lambda>result. Some (mchr_priv_uint_to_zero_one result)))"

definition mchr_get_3d_hash_zero_to_one :: "mchr_int \<Rightarrow> mchr_int \<Rightarrow> mchr_int \<Rightarrow> mchr_uint \<Rightarrow> real outcome" where
  "mchr_get_3d_hash_zero_to_one posX posY posZ seed =
     (let array = [posX, posY, posZ]
      in and_then (mchr_get_hash_uint_under_limit array seed (push_bit 24 1 + 1))
          (\<lambda>result. Some (mchr_priv_uint_to_zero_one result)))"

definition mchr_get_4d_hash_zero_to_one :: "mchr_int \<Rightarrow> mchr_int \<Rightarrow> mchr_int \<Rightarrow> mchr_int \<Rightarrow> mchr_uint \<Rightarrow> real outcome" where
  "mchr_get_4d_hash_zero_to_one posX posY posZ posT seed =
     (let array = [posX, posY, posZ, posT]
      in and_then (mchr_get_hash_uint_under_limit array seed (push_bit 24 1 + 1))
          (\<lambda>result. Some (mchr_priv_uint_to_zero_one result)))"

subsection \<open>Chance\<close>

definition mchr_get_chance :: "mchr_uint list \<Rightarrow> mchr_uint \<Rightarrow> real \<Rightarrow> bool outcome" where
  "mchr_get_chance index_buffer seed probability_of_true =
     (if \<not> (0 \<le> probability_of_true \<and> probability_of_true \<le> 1) then Some (Inl Assertion_Failed)
      else and_then (mchr_get_hash_zero_to_one index_buffer seed)
             (\<lambda>x. Some (Inr (x < probability_of_true))))"

definition mchr_get_1d_chance :: "mchr_int \<Rightarrow> mchr_uint \<Rightarrow> real \<Rightarrow> bool outcome" where
  "mchr_get_1d_chance pos seed probability_of_true =
     (if \<not> (0 \<le> probability_of_true \<and> probability_of_true \<le> 1) then Some (Inl Assertion_Failed)
      else and_then (mchr_get_1d_hash_zero_to_one pos seed)
             (\<lambda>x. Some (Inr (x < probability_of_true))))"

definition mchr_get_2d_chance :: "mchr_int \<Rightarrow> mchr_int \<Rightarrow> mchr_uint \<Rightarrow> real \<Rightarrow> bool outcome" where
  "mchr_get_2d_chance posX posY seed probability_of_true =
     (if \<not> (0 \<le> probability_of_true \<and> probability_of_true \<le> 1) then Some (Inl Assertion_Failed)
      else and_then (mchr_get_2d_hash_zero_to_one posX posY seed)
             (\<lambda>x. Some (Inr (x < probability_of_true))))"

definition mchr_get_3d_chance :: "mchr_int \<Rightarrow> mchr_int \<Rightarrow> mchr_int \<Rightarrow> mchr_uint \<Rightarrow> real \<Rightarrow> bool outcome" where
  "mchr_get_3d_chance posX posY posZ seed probability_of_true =
     (if \<not> (0 \<le> probability_of_true \<and> probability_of_true \<le> 1) then Some (Inl Assertion_Failed)
      else and_then (mchr_get_3d_hash_zero_to_one posX posY posZ seed)
             (\<lambda>x. Some (Inr (x < probability_of_true))))"

definition mchr_get_4d_chance :: "mchr_int \<Rightarrow> mchr_int \<Rightarrow> mchr_int \<Rightarrow> mchr_int \<Rightarrow> mchr_uint \<Rightarrow> real \<Rightarrow> bool outcome" where
  "mchr_get_4d_chance posX posY posZ posT seed probability_of_true =
     (if \<not> (0 \<le> probability_of_true \<and> probability_of_true \<le> 1) then Some (Inl Assertion_Failed)
      else and_then (mchr_get_4d_hash_zero_to_one posX posY posZ posT seed)
             (\<lambda>x. Some (Inr (x < probability_of_true))))"

subsection \<open>Float from -1.0 to 1.0\<close>

definition mchr_get_hash_neg_one_to_one :: "mchr_uint list \<Rightarrow> mchr_uint \<Rightarrow> real outcome" where
  "mchr_get_hash_neg_one_to_one index_buffer seed =
     and_then (mchr_get_hash_uint_under_limit index_buffer seed (push_bit 25 1))
       (\<lambda>result. Some (mchr_priv_uint_to_neg_one_one result))"

definition mchr_get_1d_hash_neg_one_to_one :: "mchr_int \<Rightarrow> mchr_uint \<Rightarrow> real outcome" where
  "mchr_get_1d_hash_neg_one_to_one pos seed =
     and_then (mchr_get_hash_uint_under_limit [pos] seed (push_bit 25 1))
       (\<lambda>result. Some (mchr_priv_uint_to_neg_one_one result))"

definition mchr_get_2d_hash_neg_one_to_one :: "mchr_int \<Rightarrow> mchr_int \<Rightarrow> mchr_uint \<Rightarrow> real outcome" where
  "mchr_get_2d_hash_neg_one_to_one posX posY seed =
     (let array = [posX, posY]
      in and_then (mchr_get_hash_uint_under_limit array seed (push_bit 25 1))
          (\<lambda>result. Some (mchr_priv_uint_to_neg_one_one result)))"

definition mchr_get_3d_hash_neg_one_to_one :: "mchr_int \<Rightarrow> mchr_int \<Rightarrow> mchr_int \<Rightarrow> mchr_uint \<Rightarrow> real outcome" where
  "mchr_get_3d_hash_neg_one_to_one posX posY posZ seed =
     (let array = [posX, posY, posZ]
      in and_then (mchr_get_hash_uint_under_limit array seed (push_bit 25 1))
          (\<lambda>result. Some (mchr_priv_uint_to_neg_one_one result)))"

definition mchr_get_4d_hash_neg_one_to_one :: "mchr_int \<Rightarrow> mchr_int \<Rightarrow> mchr_int \<Rightarrow> mchr_int \<Rightarrow> mchr_uint \<Rightarrow> real outcome" where
  "mchr_get_4d_hash_neg_one_to_one posX posY posZ posT seed =
     (let array = [posX, posY, posZ, posT]
      in and_then (mchr_get_hash_uint_under_limit array seed (push_bit 25 1))
          (\<lambda>result. Some (mchr_priv_uint_to_neg_one_one result)))"

section \<open>The mixer as the specification words it\<close>

text \<open>
  The specification's mixer: a rotating index \<open>i\<close> into the table, for each word
  \<open>accumulator += w * table[i] + table[(i + 1) mod table_len]\<close> and then
  \<open>i = (i + 1) mod table_len\<close>; after the words the seed is added and the finalizer
  applied: XOR-shift-right by 8, add a constant, XOR-shift-left by 8, multiply by a
  constant, XOR-shift-right by 8. The table and the two constants are the code's.
\<close>

definition spec_step :: "mchr_uint \<times> nat \<Rightarrow> mchr_uint \<Rightarrow> mchr_uint \<times> nat" where
  "spec_step s w =
     (case s of (accumulator, i) \<Rightarrow>
        (accumulator + (w * MCHR_PRIMES ! i + MCHR_PRIMES ! ((i + 1) mod length MCHR_PRIMES)),
         (i + 1) mod length MCHR_PRIMES))"

definition spec_accumulate :: "mchr_uint list \<Rightarrow> mchr_uint" where
  "spec_accumulate ws = fst (foldl spec_step (0, 0) ws)"

definition spec_finalizer :: "mchr_uint \<Rightarrow> mchr_uint" where
  "spec_finalizer x0 =
     (let x1 = x0 XOR drop_bit 8 x0;
          x2 = x1 + MCHR_BIT_NOISE2;
          x3 = x2 XOR push_bit 8 x2;
          x4 = x3 * MCHR_BIT_NOISE3
      in x4 XOR drop_bit 8 x4)"

definition spec_mix :: "mchr_uint list \<Rightarrow> mchr_uint \<Rightarrow> mchr_uint" where
  "spec_mix ws seed = spec_finalizer (spec_accumulate ws + seed)"

section \<open>Inverting the finalizer\<close>

text \<open>
  Each step of the finalizer can be undone, so for every buffer the hash takes every
  32-bit value at some seed: \<open>seed_for num0 target\<close> is the seed at which an accumulator
  \<open>num0\<close> is finished to \<open>target\<close>.
\<close>

definition unxorshr :: "mchr_uint \<Rightarrow> mchr_uint" where
  "unxorshr y = y XOR drop_bit 8 y XOR drop_bit 16 y XOR drop_bit 24 y"

definition unxorshl :: "mchr_uint \<Rightarrow> mchr_uint" where
  "unxorshl y = y XOR push_bit 8 y XOR push_bit 16 y XOR push_bit 24 y"

definition seed_for :: "mchr_uint \<Rightarrow> mchr_uint \<Rightarrow> mchr_uint" where
  "seed_for num0 target =
     unxorshr (unxorshl (unxorshr target * 0xAE4E5359) - MCHR_BIT_NOISE2) - num0 * MCHR_BIT_NOISE1"

section \<open>The mixer\<close>

lemma hash_loop_spec:
  "0 \<le> i \<Longrightarrow> i < 6 \<Longrightarrow> hash_loop num i ws = fst (foldl spec_step (num, nat i) ws)"
proof (induction ws arbitrary: num i)
  case Nil
  then show ?case by simp
next
  case (Cons w ws)
  let ?j = "(i + 1) mod MCHR_PRIMES_LEN"
  have j: "0 \<le> ?j" "?j < 6" by (simp_all add: MCHR_PRIMES_LEN_def)
  from Cons.prems have nj: "nat ?j = (nat i + 1) mod length MCHR_PRIMES"
    by (simp add: MCHR_PRIMES_LEN_def MCHR_PRIMES_def nat_mod_distrib nat_add_distrib)
  have "hash_loop num i (w # ws) =
      hash_loop (num + (w * MCHR_PRIMES ! nat i + MCHR_PRIMES ! nat ?j)) ?j ws"
    by (simp add: Let_def)
  also have "\<dots> =
      fst (foldl spec_step (num + (w * MCHR_PRIMES ! nat i + MCHR_PRIMES ! nat ?j), nat ?j) ws)"
    by (rule Cons.IH [OF j])
  also have "\<dots> = fst (foldl spec_step (num, nat i) (w # ws))"
    by (simp add: spec_step_def nj)
  finally show ?case .
qed

lemma hash_finish_spec:
  "hash_finish num0 seed = spec_finalizer (num0 * MCHR_BIT_NOISE1 + seed)"
  by (simp add: hash_finish_def spec_finalizer_def Let_def)

text \<open>
  Claim C3, as the code has it: \<^verbatim>\<open>mchr_get_hash_uint\<close> accumulates the words with the
  rotating table index as the specification says, but multiplies the accumulator by
  \<^verbatim>\<open>MCHR_BIT_NOISE1\<close> before it adds the seed; the finalizer is then the specification's.
\<close>

theorem hash_uint_mixer:
  "mchr_get_hash_uint ws seed = spec_finalizer (spec_accumulate ws * MCHR_BIT_NOISE1 + seed)"
  using hash_loop_spec [of 0 0 ws]
  by (simp add: mchr_get_hash_uint_def hash_finish_spec spec_accumulate_def)

text \<open>
  Claim C3 as stated fails: for the one-word buffer holding 0 and the seed 0 the hash is
  not what the specification's mixer, which adds the seed to the bare accumulator,
  computes.
\<close>

theorem hash_uint_not_spec_mix:
  "mchr_get_hash_uint [0] 0 = 0x6C749B68 \<and> spec_mix [0] 0 = 0xFC158A7E \<and>
   mchr_get_hash_uint [0] 0 \<noteq> spec_mix [0] 0"
  by (simp add: mchr_get_hash_uint_def hash_finish_def spec_mix_def spec_accumulate_def
      spec_step_def spec_finalizer_def MCHR_PRIMES_def MCHR_PRIMES_LEN_def
      MCHR_BIT_NOISE1_def MCHR_BIT_NOISE2_def MCHR_BIT_NOISE3_def)

subsection \<open>The hash takes every value\<close>

lemma xor_twice: "(a XOR t) XOR t = (a::mchr_uint)"
  by (simp add: xor.assoc)

lemma xorshr_unxorshr: "unxorshr y XOR drop_bit 8 (unxorshr y) = y"
proof -
  have "drop_bit 8 (unxorshr y) = drop_bit 8 y XOR drop_bit 16 y XOR drop_bit 24 y"
    by (simp add: unxorshr_def)
  then show ?thesis
    by (simp only: unxorshr_def xor_twice)
qed

lemma xorshl_unxorshl: "unxorshl y XOR push_bit 8 (unxorshl y) = y"
proof -
  have "push_bit 8 (unxorshl y) = push_bit 8 y XOR push_bit 16 y XOR push_bit 24 y"
    by (simp add: unxorshl_def)
  then show ?thesis
    by (simp only: unxorshl_def xor_twice)
qed

lemma noise3_inverse: "(x::mchr_uint) * 0xAE4E5359 * MCHR_BIT_NOISE3 = x"
proof -
  have one: "(0xAE4E5359 * 0x1B56C4E9 :: mchr_uint) = 1" by simp
  have "x * 0xAE4E5359 * 0x1B56C4E9 = x * (0xAE4E5359 * 0x1B56C4E9)"
    by (rule mult.assoc)
  also have "\<dots> = x" by (simp only: one mult_1_right)
  finally show ?thesis by (simp only: MCHR_BIT_NOISE3_def)
qed

lemma hash_finish_seed_for: "hash_finish num0 (seed_for num0 target) = target"
proof -
  let ?a = "unxorshr target"
  let ?b = "unxorshl (?a * 0xAE4E5359)"
  let ?c = "unxorshr (?b - MCHR_BIT_NOISE2)"
  have s1: "num0 * MCHR_BIT_NOISE1 + seed_for num0 target = ?c"
    by (simp add: seed_for_def)
  have s2: "?c XOR drop_bit 8 ?c = ?b - MCHR_BIT_NOISE2"
    by (rule xorshr_unxorshr)
  have s3: "?b - MCHR_BIT_NOISE2 + MCHR_BIT_NOISE2 = ?b"
    by simp
  have s4: "?b XOR push_bit 8 ?b = ?a * 0xAE4E5359"
    by (rule xorshl_unxorshl)
  have s5: "?a * 0xAE4E5359 * MCHR_BIT_NOISE3 = ?a"
    by (rule noise3_inverse)
  have s6: "?a XOR drop_bit 8 ?a = target"
    by (rule xorshr_unxorshr)
  show ?thesis
    unfolding hash_finish_def Let_def
    by (simp only: s1 s2 s3 s4 s5 s6)
qed

lemma hash_hits_every_value: "\<exists>k. mchr_get_hash_uint buf (seed + of_nat k) = target"
proof -
  let ?s = "seed_for (hash_loop 0 0 buf) target"
  have "seed + of_nat (unat (?s - seed)) = ?s" by simp
  then have "mchr_get_hash_uint buf (seed + of_nat (unat (?s - seed))) = target"
    by (simp only: mchr_get_hash_uint_def hash_finish_seed_for)
  then show ?thesis ..
qed

section \<open>Leading zeros\<close>

lemma bit_top_iff:
  assumes "unat (x::mchr_uint) < 2 ^ Suc n"
  shows "bit x n \<longleftrightarrow> 2 ^ n \<le> unat x"
proof -
  have "bit x n \<longleftrightarrow> bit (unat x) n"
    by (simp add: bit_unsigned_iff)
  then have "bit x n \<longleftrightarrow> odd (unat x div 2 ^ n)"
    by (simp add: bit_iff_odd)
  moreover have "unat x div 2 ^ n < 2"
    using assms by (simp add: less_mult_imp_div_less)
  moreover have "unat x div 2 ^ n = 0 \<longleftrightarrow> unat x < 2 ^ n"
    by (simp add: div_eq_0_iff)
  ultimately show ?thesis
    by (cases "unat x div 2 ^ n = 0") (auto simp: not_less)
qed

lemma leading_zeros_bounds:
  "unat x < 2 ^ n \<Longrightarrow> x \<noteq> 0 \<Longrightarrow>
     0 \<le> leading_zeros n x \<and> leading_zeros n x < int n \<and>
     2 ^ (n - 1 - nat (leading_zeros n x)) \<le> unat x \<and>
     unat x < 2 ^ (n - nat (leading_zeros n x))"
proof (induction n)
  case 0
  then show ?case by (simp add: unat_eq_0)
next
  case (Suc n)
  show ?case
  proof (cases "bit x n")
    case True
    with Suc.prems show ?thesis by (simp add: bit_top_iff)
  next
    case False
    with Suc.prems have "unat x < 2 ^ n" by (simp add: bit_top_iff)
    from Suc.IH [OF this \<open>x \<noteq> 0\<close>] False show ?thesis
      by (auto simp: nat_add_distrib Suc_diff_Suc)
  qed
qed

lemma leading_zeros_0: "leading_zeros n 0 = int n"
  by (induction n) auto

lemma leading_zeros_scan:
  "leading_zeros n x =
     (case bit_scan_reverse n x of Some k \<Rightarrow> int n - 1 - int k | None \<Rightarrow> int n)"
  by (induction n) (auto split: option.splits)

text \<open>The two branches of the conditional compilation agree wherever \<^verbatim>\<open>clz\<close> is defined.\<close>

lemma clz_msvc_agrees: "value \<noteq> 0 \<Longrightarrow> clz value = Inr (clz_msvc value)"
  by (simp add: clz_def clz_msvc_def leading_zeros_scan split: option.splits)

lemma clz_msvc_0: "clz_msvc 0 = 32"
  using leading_zeros_scan [of 32 0]
  by (simp add: clz_msvc_def leading_zeros_0 split: option.splits)

lemma clz_sound:
  assumes "2 \<le> ub"
  shows "\<exists>zeros. clz ub = Inr zeros \<and> 0 \<le> zeros \<and> zeros \<le> 30 \<and>
           2 ^ nat (31 - zeros) \<le> unat ub \<and> unat ub < 2 ^ nat (32 - zeros)"
proof -
  from assms have nz: "ub \<noteq> 0" by auto
  have lt: "unat ub < 2 ^ 32" using unsigned_less [of ub] by simp
  from assms have two: "2 \<le> unat ub" by (simp add: word_le_nat_alt)
  from leading_zeros_bounds [OF lt nz]
  have b: "0 \<le> leading_zeros 32 ub" "leading_zeros 32 ub < 32"
    "2 ^ (31 - nat (leading_zeros 32 ub)) \<le> unat ub"
    "unat ub < 2 ^ (32 - nat (leading_zeros 32 ub))" by simp_all
  have "leading_zeros 32 ub \<le> 30"
  proof (rule ccontr)
    assume "\<not> leading_zeros 32 ub \<le> 30"
    with b(2) have "leading_zeros 32 ub = 31" by simp
    with b(4) two show False by simp
  qed
  moreover have "nat (31 - leading_zeros 32 ub) = 31 - nat (leading_zeros 32 ub)"
    "nat (32 - leading_zeros 32 ub) = 32 - nat (leading_zeros 32 ub)"
    using b(1) by (simp_all add: nat_diff_distrib)
  ultimately show ?thesis using nz b by (simp add: clz_def)
qed

section \<open>The bounded sampler\<close>

lemma window_loop_returns:
  "0 < bits \<Longrightarrow>
   \<exists>found. window_loop v bits_left bits m ub = Some found \<and> (\<forall>r. found = Some r \<longrightarrow> r < ub)"
proof (induction "nat bits_left" arbitrary: v bits_left rule: less_induct)
  case less
  show ?case
  proof (cases "bits_left \<ge> bits")
    case False
    then show ?thesis by (subst window_loop.simps) simp
  next
    case True
    let ?v = "drop_bit (nat bits) v"
    show ?thesis
    proof (cases "?v AND m < ub")
      case True
      with \<open>bits_left \<ge> bits\<close> show ?thesis
        by (subst window_loop.simps) (simp add: Let_def)
    next
      case False
      from \<open>bits_left \<ge> bits\<close> \<open>0 < bits\<close> have "nat (bits_left - bits) < nat bits_left"
        by simp
      from less.hyps [OF this \<open>0 < bits\<close>, of ?v] obtain found where
        "window_loop ?v (bits_left - bits) bits m ub = Some found"
        "\<forall>r. found = Some r \<longrightarrow> r < ub" by blast
      with False \<open>bits_left \<ge> bits\<close> show ?thesis
        by (subst window_loop.simps) (simp add: Let_def)
    qed
  qed
qed

lemma draw_loop_reaches:
  assumes bits: "0 < bits"
  shows "mchr_get_hash_uint buf (seed + of_nat k) AND m < ub \<Longrightarrow>
     \<exists>r. draw_loop buf seed ub zeros bits m = Some r \<and> r < ub"
proof (induction k arbitrary: seed)
  case 0
  then show ?case by (subst draw_loop.simps) (simp add: Let_def)
next
  case (Suc k)
  let ?v = "mchr_get_hash_uint buf seed"
  show ?case
  proof (cases "?v AND m < ub")
    case True
    then show ?thesis by (subst draw_loop.simps) (simp add: Let_def)
  next
    case False
    from window_loop_returns [OF bits, of ?v zeros m ub] obtain found where
      w: "window_loop ?v zeros bits m ub = Some found" "\<forall>r. found = Some r \<longrightarrow> r < ub"
      by blast
    show ?thesis
    proof (cases found)
      case (Some r)
      with w False show ?thesis by (subst draw_loop.simps) (simp add: Let_def)
    next
      case None
      from Suc.prems have "mchr_get_hash_uint buf (seed + 1 + of_nat k) AND m < ub"
        by (simp add: ac_simps)
      from Suc.IH [OF this] obtain r where
        "draw_loop buf (seed + 1) ub zeros bits m = Some r" "r < ub" by blast
      with None w False show ?thesis by (subst draw_loop.simps) (simp add: Let_def)
    qed
  qed
qed

lemma draw_loop_returns:
  assumes "0 < bits" and "0 < ub"
  shows "\<exists>r. draw_loop buf seed ub zeros bits m = Some r \<and> r < ub"
proof -
  from hash_hits_every_value obtain k where "mchr_get_hash_uint buf (seed + of_nat k) = 0"
    by blast
  with \<open>0 < ub\<close> have "mchr_get_hash_uint buf (seed + of_nat k) AND m < ub"
    by simp
  with \<open>0 < bits\<close> show ?thesis by (rule draw_loop_reaches)
qed

lemma under_limit_returns:
  assumes "2 \<le> ub"
  shows "\<exists>r. mchr_get_hash_uint_under_limit buf seed ub = Some (Inr r) \<and> r < ub"
proof -
  from clz_sound [OF assms] obtain zeros where z: "clz ub = Inr zeros" "zeros \<le> 30" by blast
  from assms have "\<not> ub < 2" "0 < ub" by (auto simp: not_less word_gt_0)
  moreover from z have "0 < window_bits zeros" by (simp add: window_bits_def)
  from draw_loop_returns [OF this \<open>0 < ub\<close>, of buf seed zeros "window_mask zeros"]
  obtain r where "draw_loop buf seed ub zeros (window_bits zeros) (window_mask zeros) = Some r"
    "r < ub" by blast
  ultimately show ?thesis using z by (simp add: mchr_get_hash_uint_under_limit_def Let_def)
qed

lemma hash_uint_0_0: "mchr_get_hash_uint [0] 0 = 0x6C749B68"
  by (simp add: mchr_get_hash_uint_def hash_finish_def MCHR_PRIMES_def MCHR_PRIMES_LEN_def
      MCHR_BIT_NOISE1_def MCHR_BIT_NOISE2_def MCHR_BIT_NOISE3_def)

lemma under_limit_0_0_10: "mchr_get_hash_uint_under_limit [0] 0 10 = Some (Inr 8)"
proof -
  have lz: "leading_zeros 32 10 = 28" by code_simp
  have "draw_loop [0] 0 10 28 4 (window_mask 28) = Some 8"
    by (subst draw_loop.simps) (simp add: hash_uint_0_0 window_mask_def)
  then show ?thesis
    by (simp add: mchr_get_hash_uint_under_limit_def clz_def lz window_bits_def)
qed

text \<open>
  Claim C1: for every index buffer, every seed and every \<open>upper_bound \<ge> 2\<close>,
  \<^verbatim>\<open>mchr_get_hash_uint_under_limit\<close> returns, and whenever it returns \<open>r\<close>, \<open>r\<close> is below
  \<open>upper_bound\<close> (and, unsigned, at least 0).
\<close>

theorem under_limit_bounded:
  assumes "2 \<le> upper_bound"
  shows "(\<exists>r. mchr_get_hash_uint_under_limit index_buffer seed upper_bound = Some (Inr r)) \<and>
         (\<forall>r. mchr_get_hash_uint_under_limit index_buffer seed upper_bound = Some (Inr r)
                \<longrightarrow> 0 \<le> r \<and> r < upper_bound)"
  using under_limit_returns [OF assms, of index_buffer seed] by auto

theorem under_limit_bounded_witness:
  "(2::mchr_uint) \<le> 10 \<and> mchr_get_hash_uint_under_limit [0] 0 10 = Some (Inr 8) \<and>
   (0::mchr_uint) \<le> 8 \<and> (8::mchr_uint) < 10"
  using under_limit_bounded [of 10 "[0]" 0] under_limit_0_0_10 by simp

text \<open>
  Claim C8: for every index buffer, every seed and every \<open>upper_bound < 2\<close>,
  \<^verbatim>\<open>mchr_get_hash_uint_under_limit\<close> returns 0, and no error.
\<close>

theorem under_limit_degenerate:
  "upper_bound < 2 \<Longrightarrow>
     mchr_get_hash_uint_under_limit index_buffer seed upper_bound = Some (Inr 0)"
  by (simp add: mchr_get_hash_uint_under_limit_def)

theorem under_limit_degenerate_witness:
  "(1::mchr_uint) < 2 \<and> mchr_get_hash_uint_under_limit [7, 9] 3 1 = Some (Inr 0)"
  using under_limit_degenerate [of 1 "[7, 9]" 3] by simp

section \<open>Window width and mask\<close>

lemma window_mask_value:
  assumes "0 \<le> zeros" "zeros \<le> 32"
  shows "uint (window_mask zeros) = 2 ^ nat (window_bits zeros) - 1"
proof -
  have e: "(0xFFFFFFFF :: mchr_uint) = mask 32" by (simp add: mask_eq_exp_minus_1)
  have "window_mask zeros = mask (32 - nat zeros)"
    unfolding window_mask_def e by (rule bit_eqI) (auto simp: bit_simps)
  moreover have "nat (window_bits zeros) = 32 - nat zeros"
    using assms by (simp add: window_bits_def nat_diff_distrib)
  moreover have "uint (mask (32 - nat zeros) :: mchr_uint) = 2 ^ (32 - nat zeros) - 1"
  proof -
    have "uint (mask (32 - nat zeros) :: mchr_uint) = (mask (32 - nat zeros) :: int)"
      by (simp add: uint_mask_eq)
    then show ?thesis by (simp only: mask_eq_exp_minus_1)
  qed
  ultimately show ?thesis
    by simp
qed

lemma pow_int_of_nat: "(2::nat) ^ n \<le> k \<Longrightarrow> (2::int) ^ n \<le> int k"
  by (simp add: of_nat_le_iff [symmetric] del: of_nat_le_iff)

lemma pow_int_of_nat_less: "k < (2::nat) ^ n \<Longrightarrow> int k < (2::int) ^ n"
  by (simp add: of_nat_less_iff [symmetric] del: of_nat_less_iff)

lemma pow_real_of_nat: "(2::nat) ^ n \<le> k \<Longrightarrow> (2::real) ^ n \<le> real k"
  by (simp add: of_nat_le_iff [symmetric] del: of_nat_le_iff)

lemma half_le_quotient:
  fixes x :: real
  assumes "0 < n" "2 ^ (n - 1) \<le> x"
  shows "1 / 2 \<le> x / 2 ^ n"
proof -
  from assms(1) have "(2::real) ^ n = 2 * 2 ^ (n - 1)"
    by (cases n) simp_all
  with assms(2) show ?thesis by (simp add: field_simps)
qed

text \<open>
  Claim C4: for every \<open>upper_bound \<ge> 2\<close>, with \<open>zeros\<close> what \<^verbatim>\<open>clz\<close> returns, \<open>bits\<close> is
  the least number of bits \<open>b\<close> with \<open>2 ^ b - 1 \<ge> upper_bound\<close>, the mask is
  \<open>2 ^ bits - 1\<close>, and \<open>2 ^ (bits - 1) \<le> upper_bound\<close>, that is
  \<open>upper_bound / 2 ^ bits \<ge> 1 / 2\<close>.
\<close>

theorem window_bits_minimal:
  assumes "2 \<le> upper_bound"
  shows "\<exists>zeros. clz upper_bound = Inr zeros \<and>
           uint upper_bound \<le> 2 ^ nat (window_bits zeros) - 1 \<and>
           (\<forall>b. uint upper_bound \<le> 2 ^ b - 1 \<longrightarrow> nat (window_bits zeros) \<le> b) \<and>
           uint (window_mask zeros) = 2 ^ nat (window_bits zeros) - 1 \<and>
           2 ^ (nat (window_bits zeros) - 1) \<le> uint upper_bound \<and>
           1 / 2 \<le> real (unat upper_bound) / 2 ^ nat (window_bits zeros)"
proof -
  from clz_sound [OF assms] obtain zeros where z: "clz upper_bound = Inr zeros"
    "0 \<le> zeros" "zeros \<le> 30"
    "2 ^ nat (31 - zeros) \<le> unat upper_bound" "unat upper_bound < 2 ^ nat (32 - zeros)"
    by blast
  define bits where "bits = nat (window_bits zeros)"
  have bits: "bits = nat (32 - zeros)" "bits - 1 = nat (31 - zeros)" "0 < bits"
    using z(2,3) by (simp_all add: bits_def window_bits_def nat_diff_distrib)
  have u: "uint upper_bound = int (unat upper_bound)" by simp
  have lo: "(2::int) ^ (bits - 1) \<le> uint upper_bound"
    unfolding u bits(2) using z(4) by (rule pow_int_of_nat)
  have hi: "uint upper_bound < 2 ^ bits"
    unfolding u bits(1) using z(5) by (rule pow_int_of_nat_less)
  have minimal: "bits \<le> b" if "uint upper_bound \<le> 2 ^ b - 1" for b
  proof (rule ccontr)
    assume "\<not> bits \<le> b"
    then have "b \<le> bits - 1" by simp
    then have "(2::int) ^ b \<le> 2 ^ (bits - 1)" by (rule power_increasing) simp
    with lo that show False by linarith
  qed
  have "(2::real) ^ (bits - 1) \<le> real (unat upper_bound)"
    unfolding bits(2) using z(4) by (rule pow_real_of_nat)
  with bits(3) have half: "1 / 2 \<le> real (unat upper_bound) / 2 ^ bits"
    by (rule half_le_quotient)
  from z(2,3) have m: "uint (window_mask zeros) = 2 ^ bits - 1"
    unfolding bits_def by (intro window_mask_value) simp_all
  from hi have "uint upper_bound \<le> 2 ^ bits - 1" by simp
  with z(1) lo minimal half m show ?thesis
    unfolding bits_def by blast
qed

theorem window_bits_minimal_witness:
  "(2::mchr_uint) \<le> 10 \<and> clz 10 = Inr 28 \<and>
   uint (10::mchr_uint) \<le> 2 ^ nat (window_bits 28) - 1 \<and>
   uint (10::mchr_uint) \<le> 2 ^ 4 - 1 \<and> nat (window_bits 28) \<le> 4 \<and>
   uint (window_mask 28) = 2 ^ nat (window_bits 28) - 1 \<and>
   2 ^ (nat (window_bits 28) - 1) \<le> uint (10::mchr_uint) \<and>
   1 / 2 \<le> real (unat (10::mchr_uint)) / 2 ^ nat (window_bits 28)"
proof -
  have lz: "leading_zeros 32 10 = 28" by code_simp
  have c: "clz 10 = Inr 28" by (simp add: clz_def lz)
  have "(2::mchr_uint) \<le> 10" by simp
  from window_bits_minimal [OF this] c show ?thesis by simp
qed

section \<open>The clz call\<close>

lemma under_limit_no_error:
  "mchr_get_hash_uint_under_limit buf seed ub \<noteq> Some (Inl e)"
proof (cases "ub < 2")
  case True
  then show ?thesis by (simp add: mchr_get_hash_uint_under_limit_def)
next
  case False
  then have "2 \<le> ub" by (simp add: not_less)
  from under_limit_returns [OF this, of buf seed] show ?thesis by auto
qed

lemma under_limit_clz_defined: "clz_defined (mchr_get_hash_uint_under_limit buf seed ub)"
  by (simp add: clz_defined_def under_limit_no_error)

lemma and_then_clz_defined:
  "clz_defined m \<Longrightarrow> (\<And>v. clz_defined (f v)) \<Longrightarrow> clz_defined (and_then m f)"
  by (auto simp: clz_defined_def and_then_def split: option.splits sum.splits)

lemma and_then_pure_clz_defined:
  "clz_defined m \<Longrightarrow> clz_defined (and_then m (\<lambda>v. Some (Inr (g v))))"
  by (rule and_then_clz_defined) (simp_all add: clz_defined_def)

lemma assert_clz_defined: "clz_defined (Some (Inl Assertion_Failed))"
  by (simp add: clz_defined_def)

lemma priv_zero_one_clz_defined: "clz_defined (Some (mchr_priv_uint_to_zero_one r))"
  by (simp add: clz_defined_def mchr_priv_uint_to_zero_one_def Let_def)

lemma priv_neg_one_one_clz_defined: "clz_defined (Some (mchr_priv_uint_to_neg_one_one r))"
  by (simp add: clz_defined_def mchr_priv_uint_to_neg_one_one_def Let_def)

lemma uint_in_range_clz_defined:
  "clz_defined (mchr_get_hash_uint_in_range buf seed minv maxv)"
  by (simp add: mchr_get_hash_uint_in_range_def assert_clz_defined and_then_pure_clz_defined
      under_limit_clz_defined)

lemma int_range_bound_error:
  "int_range_bound minv maxv = Inl e \<Longrightarrow> e = Signed_Overflow"
  by (auto simp: int_range_bound_def int_sub_def int_add_def split: sum.splits if_splits)

lemma int_in_range_clz_defined:
  "clz_defined (mchr_get_hash_int_in_range buf seed minv maxv)"
proof (cases "int_range_bound minv maxv")
  case (Inl e)
  then have "e = Signed_Overflow" by (rule int_range_bound_error)
  with Inl show ?thesis
    by (simp add: mchr_get_hash_int_in_range_def clz_defined_def)
next
  case (Inr upper_bound)
  then show ?thesis
    by (simp add: mchr_get_hash_int_in_range_def assert_clz_defined
        and_then_pure_clz_defined under_limit_clz_defined)
qed

lemma zero_to_one_clz_defined: "clz_defined (mchr_get_hash_zero_to_one buf seed)"
  unfolding mchr_get_hash_zero_to_one_def
  by (intro and_then_clz_defined under_limit_clz_defined priv_zero_one_clz_defined)

lemma neg_one_to_one_clz_defined: "clz_defined (mchr_get_hash_neg_one_to_one buf seed)"
  unfolding mchr_get_hash_neg_one_to_one_def
  by (intro and_then_clz_defined under_limit_clz_defined priv_neg_one_one_clz_defined)

lemma chance_clz_defined: "clz_defined (mchr_get_chance buf seed p)"
  by (simp add: mchr_get_chance_def assert_clz_defined and_then_pure_clz_defined
      zero_to_one_clz_defined)

section \<open>Ranges\<close>

text \<open>
  Adding \<open>2 ^ 31\<close> turns the signed order into the unsigned one, so the signed range is
  the unsigned range shifted.
\<close>

lemma sint_shift: "sint (w::mchr_uint) = uint (w + 0x80000000) - 2 ^ 31"
proof -
  have "sint w = take_bit 32 (uint w + 2 ^ 31) - 2 ^ 31"
    by (simp add: sint_uint signed_take_bit_eq_take_bit_shift)
  also have "take_bit 32 (uint w + 2 ^ 31) = uint (w + 0x80000000)"
    by (simp add: uint_word_ariths take_bit_eq_mod)
  finally show ?thesis .
qed

lemma sless_shift: "a <s b \<longleftrightarrow> a + 0x80000000 < (b + 0x80000000 :: mchr_uint)"
  by (simp only: word_sless_alt sint_shift word_less_def) simp

lemma sle_shift: "a \<le>s b \<longleftrightarrow> a + 0x80000000 \<le> (b + 0x80000000 :: mchr_uint)"
  by (simp only: word_sle_eq sint_shift word_le_def) simp

lemma in_range_arith:
  fixes minv maxv r :: mchr_uint
  assumes "minv < maxv" "2 \<le> maxv - minv + 1" "r < maxv - minv + 1"
  shows "minv \<le> r + minv \<and> r + minv \<le> maxv"
  using assms by unat_arith

lemma in_range_wrap:
  fixes minv maxv :: mchr_uint
  assumes "minv < maxv" "maxv - minv + 1 < 2"
  shows "minv \<le> 0 + minv \<and> 0 + minv \<le> maxv"
  using assms by simp

lemma under_limit_in_range:
  assumes "minv < maxv"
  shows "\<exists>r. mchr_get_hash_uint_under_limit buf seed (maxv - minv + 1) = Some (Inr r) \<and>
           minv \<le> r + minv \<and> r + minv \<le> maxv"
proof (cases "maxv - minv + 1 < 2")
  case True
  then have "mchr_get_hash_uint_under_limit buf seed (maxv - minv + 1) = Some (Inr 0)"
    by (simp add: mchr_get_hash_uint_under_limit_def)
  with in_range_wrap [OF assms True] show ?thesis by blast
next
  case False
  then have two: "2 \<le> maxv - minv + 1" by (simp add: not_less)
  from under_limit_returns [OF this, of buf seed] obtain r where
    r: "mchr_get_hash_uint_under_limit buf seed (maxv - minv + 1) = Some (Inr r)"
       "r < maxv - minv + 1" by blast
  from in_range_arith [OF assms two r(2)] r(1) show ?thesis by blast
qed

lemma under_limit_in_range_signed:
  assumes "minv <s maxv"
  shows "\<exists>r. mchr_get_hash_uint_under_limit buf seed (maxv - minv + 1) = Some (Inr r) \<and>
           minv \<le>s r + minv \<and> r + minv \<le>s maxv"
proof -
  let ?a = "minv + 0x80000000" and ?b = "maxv + 0x80000000"
  from assms have "?a < ?b" by (simp only: sless_shift)
  from under_limit_in_range [OF this, of buf seed] obtain r where
    r: "mchr_get_hash_uint_under_limit buf seed (?b - ?a + 1) = Some (Inr r)"
       "?a \<le> r + ?a" "r + ?a \<le> ?b" by blast
  have "?b - ?a + 1 = maxv - minv + 1" by simp
  moreover have "r + ?a = (r + minv) + 0x80000000" by simp
  ultimately have "mchr_get_hash_uint_under_limit buf seed (maxv - minv + 1) = Some (Inr r)"
    "minv \<le>s r + minv" "r + minv \<le>s maxv"
    using r by (simp_all only: sle_shift)
  then show ?thesis by blast
qed

lemma uint_in_range_closed:
  assumes "minv < maxv"
  shows "\<exists>r. mchr_get_hash_uint_under_limit buf seed (maxv - minv + 1) = Some (Inr r) \<and>
           mchr_get_hash_uint_in_range buf seed minv maxv = Some (Inr (r + minv)) \<and>
           minv \<le> r + minv \<and> r + minv \<le> maxv"
proof -
  from under_limit_in_range [OF assms, of buf seed] obtain r where
    r: "mchr_get_hash_uint_under_limit buf seed (maxv - minv + 1) = Some (Inr r)"
       "minv \<le> r + minv" "r + minv \<le> maxv" by blast
  from assms r(1) have "mchr_get_hash_uint_in_range buf seed minv maxv = Some (Inr (r + minv))"
    by (simp add: mchr_get_hash_uint_in_range_def and_then_def)
  with r show ?thesis by blast
qed

lemma sint_diff_exact:
  fixes a b :: mchr_int
  assumes "- (2 ^ 31) \<le> sint a - sint b" "sint a - sint b < 2 ^ 31"
  shows "sint (a - b) = sint a - sint b"
proof -
  have "sint (a - b) = signed_take_bit 31 (sint a - sint b)"
    by (simp add: sint_word_ariths)
  also from assms have "\<dots> = sint a - sint b"
    by (intro signed_take_bit_int_eq_self) simp_all
  finally show ?thesis .
qed

text \<open>
  For \<open>min <s max\<close> the bound \<^verbatim>\<open>max - min + 1\<close> is defined exactly when
  \<open>max - min < 2 ^ 31 - 1\<close>.
\<close>

lemma int_range_bound_eq:
  assumes "minv <s maxv"
  shows "int_range_bound minv maxv =
           (if sint maxv - sint minv < 2 ^ 31 - 1 then Inr (maxv - minv + 1)
            else Inl Signed_Overflow)"
proof (cases "sint maxv - sint minv < 2 ^ 31")
  case True
  from assms have pos: "0 < sint maxv - sint minv" by (simp add: word_sless_alt)
  with True have "sint (maxv - minv) = sint maxv - sint minv"
    by (intro sint_diff_exact) simp_all
  with True pos show ?thesis
    by (simp add: int_range_bound_def int_sub_def int_add_def)
next
  case False
  then show ?thesis
    by (simp add: int_range_bound_def int_sub_def)
qed

lemma int_in_range_closed:
  assumes "minv <s maxv" and "sint maxv - sint minv < 2 ^ 31 - 1"
  shows "\<exists>r. mchr_get_hash_uint_under_limit buf seed (maxv - minv + 1) = Some (Inr r) \<and>
           mchr_get_hash_int_in_range buf seed minv maxv = Some (Inr (r + minv)) \<and>
           minv \<le>s r + minv \<and> r + minv \<le>s maxv"
proof -
  from under_limit_in_range_signed [OF assms(1), of buf seed] obtain r where
    r: "mchr_get_hash_uint_under_limit buf seed (maxv - minv + 1) = Some (Inr r)"
       "minv \<le>s r + minv" "r + minv \<le>s maxv" by blast
  from assms have "int_range_bound minv maxv = Inr (maxv - minv + 1)"
    by (simp add: int_range_bound_eq)
  with assms(1) r(1) have
    "mchr_get_hash_int_in_range buf seed minv maxv = Some (Inr (r + minv))"
    by (simp add: mchr_get_hash_int_in_range_def and_then_def)
  with r show ?thesis by blast
qed

text \<open>
  Claim C5 fails for \<^verbatim>\<open>mchr_get_hash_int_in_range\<close>: \<open>min = 0\<close> and \<open>max = 2 ^ 31 - 1\<close>, and
  \<open>min = - 2 ^ 31\<close> and \<open>max = 2 ^ 31 - 1\<close>, pass the assertion, and \<^verbatim>\<open>max - min + 1\<close>
  overflows \<^verbatim>\<open>int\<close>, for every index buffer and every seed and in the 1d function at
  the coordinate 0 and the seed 0; no value in the closed range is returned. (For
  \<^verbatim>\<open>mchr_get_hash_uint_in_range\<close>, and for the signed function where the bound does
  not overflow, the claim holds: \<open>uint_in_range_closed\<close>, \<open>int_in_range_closed\<close>.)
\<close>

theorem int_in_range_signed_overflow:
  "(0::mchr_int) <s 0x7FFFFFFF \<and>
   mchr_get_hash_int_in_range index_buffer seed 0 0x7FFFFFFF = Some (Inl Signed_Overflow) \<and>
   mchr_get_1d_hash_int_in_range 0 0 0 0x7FFFFFFF = Some (Inl Signed_Overflow) \<and>
   (0x80000000::mchr_int) <s 0x7FFFFFFF \<and>
   mchr_get_hash_int_in_range index_buffer seed 0x80000000 0x7FFFFFFF =
     Some (Inl Signed_Overflow)"
  by (simp add: mchr_get_hash_int_in_range_def mchr_get_1d_hash_int_in_range_def
      int_range_bound_def int_sub_def int_add_def word_sless_alt)

text \<open>
  Claim C9: for \<open>min = 0\<close> and \<open>max = 2 ^ 32 - 1\<close> the bound \<open>max - min + 1\<close> wraps to 0 and
  \<^verbatim>\<open>mchr_get_hash_uint_in_range\<close> returns 0 for every index buffer and every seed.
\<close>

theorem uint_in_range_full_is_zero:
  "(0::mchr_uint) < 0xFFFFFFFF \<and> (0xFFFFFFFF - 0 + 1 :: mchr_uint) = 0 \<and>
   mchr_get_hash_uint_in_range index_buffer seed 0 0xFFFFFFFF = Some (Inr 0)"
  by (simp add: mchr_get_hash_uint_in_range_def mchr_get_hash_uint_under_limit_def and_then_def)

section \<open>The 1d to 4d functions\<close>

lemma facade_hash_uint:
  "mchr_get_1d_hash_uint pos seed =
     mchr_get_hash_uint [pos] seed"
  "mchr_get_2d_hash_uint posX posY seed =
     mchr_get_hash_uint [posX, posY] seed"
  "mchr_get_3d_hash_uint posX posY posZ seed =
     mchr_get_hash_uint [posX, posY, posZ] seed"
  "mchr_get_4d_hash_uint posX posY posZ posT seed =
     mchr_get_hash_uint [posX, posY, posZ, posT] seed"
  by (simp_all add: mchr_get_1d_hash_uint_def mchr_get_2d_hash_uint_def
      mchr_get_3d_hash_uint_def mchr_get_4d_hash_uint_def Let_def)

lemma facade_uint_in_range:
  "mchr_get_1d_hash_uint_in_range pos seed minv maxv =
     mchr_get_hash_uint_in_range [pos] seed minv maxv"
  "mchr_get_2d_hash_uint_in_range posX posY seed minv maxv =
     mchr_get_hash_uint_in_range [posX, posY] seed minv maxv"
  "mchr_get_3d_hash_uint_in_range posX posY posZ seed minv maxv =
     mchr_get_hash_uint_in_range [posX, posY, posZ] seed minv maxv"
  "mchr_get_4d_hash_uint_in_range posX posY posZ posT seed minv maxv =
     mchr_get_hash_uint_in_range [posX, posY, posZ, posT] seed minv maxv"
  by (simp_all add: mchr_get_1d_hash_uint_in_range_def mchr_get_2d_hash_uint_in_range_def
      mchr_get_3d_hash_uint_in_range_def mchr_get_4d_hash_uint_in_range_def
      mchr_get_hash_uint_in_range_def Let_def)

lemma facade_int_in_range:
  "mchr_get_1d_hash_int_in_range pos seed minv maxv =
     mchr_get_hash_int_in_range [pos] seed minv maxv"
  "mchr_get_2d_hash_int_in_range posX posY seed minv maxv =
     mchr_get_hash_int_in_range [posX, posY] seed minv maxv"
  "mchr_get_3d_hash_int_in_range posX posY posZ seed minv maxv =
     mchr_get_hash_int_in_range [posX, posY, posZ] seed minv maxv"
  "mchr_get_4d_hash_int_in_range posX posY posZ posT seed minv maxv =
     mchr_get_hash_int_in_range [posX, posY, posZ, posT] seed minv maxv"
  by (simp_all add: mchr_get_1d_hash_int_in_range_def mchr_get_2d_hash_int_in_range_def
      mchr_get_3d_hash_int_in_range_def mchr_get_4d_hash_int_in_range_def
      mchr_get_hash_int_in_range_def Let_def)

lemma facade_zero_to_one:
  "mchr_get_1d_hash_zero_to_one pos seed =
     mchr_get_hash_zero_to_one [pos] seed"
  "mchr_get_2d_hash_zero_to_one posX posY seed =
     mchr_get_hash_zero_to_one [posX, posY] seed"
  "mchr_get_3d_hash_zero_to_one posX posY posZ seed =
     mchr_get_hash_zero_to_one [posX, posY, posZ] seed"
  "mchr_get_4d_hash_zero_to_one posX posY posZ posT seed =
     mchr_get_hash_zero_to_one [posX, posY, posZ, posT] seed"
  by (simp_all add: mchr_get_1d_hash_zero_to_one_def mchr_get_2d_hash_zero_to_one_def
      mchr_get_3d_hash_zero_to_one_def mchr_get_4d_hash_zero_to_one_def
      mchr_get_hash_zero_to_one_def Let_def)

lemma facade_neg_one_to_one:
  "mchr_get_1d_hash_neg_one_to_one pos seed =
     mchr_get_hash_neg_one_to_one [pos] seed"
  "mchr_get_2d_hash_neg_one_to_one posX posY seed =
     mchr_get_hash_neg_one_to_one [posX, posY] seed"
  "mchr_get_3d_hash_neg_one_to_one posX posY posZ seed =
     mchr_get_hash_neg_one_to_one [posX, posY, posZ] seed"
  "mchr_get_4d_hash_neg_one_to_one posX posY posZ posT seed =
     mchr_get_hash_neg_one_to_one [posX, posY, posZ, posT] seed"
  by (simp_all add: mchr_get_1d_hash_neg_one_to_one_def mchr_get_2d_hash_neg_one_to_one_def
      mchr_get_3d_hash_neg_one_to_one_def mchr_get_4d_hash_neg_one_to_one_def
      mchr_get_hash_neg_one_to_one_def Let_def)

lemma facade_chance:
  "mchr_get_1d_chance pos seed p =
     mchr_get_chance [pos] seed p"
  "mchr_get_2d_chance posX posY seed p =
     mchr_get_chance [posX, posY] seed p"
  "mchr_get_3d_chance posX posY posZ seed p =
     mchr_get_chance [posX, posY, posZ] seed p"
  "mchr_get_4d_chance posX posY posZ posT seed p =
     mchr_get_chance [posX, posY, posZ, posT] seed p"
  by (simp_all add: mchr_get_1d_chance_def mchr_get_2d_chance_def mchr_get_3d_chance_def
      mchr_get_4d_chance_def mchr_get_chance_def facade_zero_to_one Let_def)

text \<open>
  Claim C7: each of the 1d, 2d, 3d and 4d functions of the six operations returns what
  the buffer function of the operation returns on the buffer of its coordinates, in the
  order of the arguments, with the seed and the other arguments unchanged.
\<close>

theorem facade_delegates:
  "(mchr_get_1d_hash_uint pos seed = mchr_get_hash_uint [pos] seed) \<and>
   (mchr_get_2d_hash_uint posX posY seed = mchr_get_hash_uint [posX, posY] seed) \<and>
   (mchr_get_3d_hash_uint posX posY posZ seed = mchr_get_hash_uint [posX, posY, posZ] seed) \<and>
   (mchr_get_4d_hash_uint posX posY posZ posT seed = mchr_get_hash_uint [posX, posY, posZ, posT] seed) \<and>
   (mchr_get_1d_hash_uint_in_range pos seed minv maxv = mchr_get_hash_uint_in_range [pos] seed minv maxv) \<and>
   (mchr_get_2d_hash_uint_in_range posX posY seed minv maxv = mchr_get_hash_uint_in_range [posX, posY] seed minv maxv) \<and>
   (mchr_get_3d_hash_uint_in_range posX posY posZ seed minv maxv = mchr_get_hash_uint_in_range [posX, posY, posZ] seed minv maxv) \<and>
   (mchr_get_4d_hash_uint_in_range posX posY posZ posT seed minv maxv = mchr_get_hash_uint_in_range [posX, posY, posZ, posT] seed minv maxv) \<and>
   (mchr_get_1d_hash_int_in_range pos seed minv maxv = mchr_get_hash_int_in_range [pos] seed minv maxv) \<and>
   (mchr_get_2d_hash_int_in_range posX posY seed minv maxv = mchr_get_hash_int_in_range [posX, posY] seed minv maxv) \<and>
   (mchr_get_3d_hash_int_in_range posX posY posZ seed minv maxv = mchr_get_hash_int_in_range [posX, posY, posZ] seed minv maxv) \<and>
   (mchr_get_4d_hash_int_in_range posX posY posZ posT seed minv maxv = mchr_get_hash_int_in_range [posX, posY, posZ, posT] seed minv maxv) \<and>
   (mchr_get_1d_hash_zero_to_one pos seed = mchr_get_hash_zero_to_one [pos] seed) \<and>
   (mchr_get_2d_hash_zero_to_one posX posY seed = mchr_get_hash_zero_to_one [posX, posY] seed) \<and>
   (mchr_get_3d_hash_zero_to_one posX posY posZ seed = mchr_get_hash_zero_to_one [posX, posY, posZ] seed) \<and>
   (mchr_get_4d_hash_zero_to_one posX posY posZ posT seed = mchr_get_hash_zero_to_one [posX, posY, posZ, posT] seed) \<and>
   (mchr_get_1d_hash_neg_one_to_one pos seed = mchr_get_hash_neg_one_to_one [pos] seed) \<and>
   (mchr_get_2d_hash_neg_one_to_one posX posY seed = mchr_get_hash_neg_one_to_one [posX, posY] seed) \<and>
   (mchr_get_3d_hash_neg_one_to_one posX posY posZ seed = mchr_get_hash_neg_one_to_one [posX, posY, posZ] seed) \<and>
   (mchr_get_4d_hash_neg_one_to_one posX posY posZ posT seed = mchr_get_hash_neg_one_to_one [posX, posY, posZ, posT] seed) \<and>
   (mchr_get_1d_chance pos seed p = mchr_get_chance [pos] seed p) \<and>
   (mchr_get_2d_chance posX posY seed p = mchr_get_chance [posX, posY] seed p) \<and>
   (mchr_get_3d_chance posX posY posZ seed p = mchr_get_chance [posX, posY, posZ] seed p) \<and>
   (mchr_get_4d_chance posX posY posZ posT seed p = mchr_get_chance [posX, posY, posZ, posT] seed p)"
  by (intro conjI facade_hash_uint facade_uint_in_range facade_int_in_range
      facade_zero_to_one facade_neg_one_to_one facade_chance)

text \<open>
  Claim C10: \<^verbatim>\<open>mchr_get_hash_uint_under_limit\<close> returns 0 before the call of \<^verbatim>\<open>clz\<close> when
  \<open>upper_bound < 2\<close>; otherwise the argument of \<^verbatim>\<open>clz\<close> is not 0, \<open>zeros\<close> is at most 30
  and \<open>bits\<close> at least 2; and no public operation ends in the error of \<^verbatim>\<open>clz\<close> called
  with 0 (an integer range function whose bound overflows is undefined before it calls
  the sampler, and ends in the error of the overflow).
\<close>

theorem clz_argument_nonzero:
  "(upper_bound < 2 \<longrightarrow>
      mchr_get_hash_uint_under_limit index_buffer seed upper_bound = Some (Inr 0)) \<and>
   (\<not> upper_bound < 2 \<longrightarrow>
      upper_bound \<noteq> 0 \<and>
      (\<exists>zeros. clz upper_bound = Inr zeros \<and> 0 \<le> zeros \<and> zeros \<le> 30 \<and> 2 \<le> window_bits zeros)) \<and>
   clz_defined (mchr_get_hash_uint_under_limit index_buffer seed upper_bound) \<and>
   clz_defined (mchr_get_hash_uint_in_range index_buffer seed minv maxv) \<and>
   clz_defined (mchr_get_hash_int_in_range index_buffer seed minv maxv) \<and>
   clz_defined (mchr_get_hash_zero_to_one index_buffer seed) \<and>
   clz_defined (mchr_get_hash_neg_one_to_one index_buffer seed) \<and>
   clz_defined (mchr_get_chance index_buffer seed p) \<and>
   clz_defined (mchr_get_1d_hash_uint_in_range pos seed minv maxv) \<and>
   clz_defined (mchr_get_2d_hash_uint_in_range posX posY seed minv maxv) \<and>
   clz_defined (mchr_get_3d_hash_uint_in_range posX posY posZ seed minv maxv) \<and>
   clz_defined (mchr_get_4d_hash_uint_in_range posX posY posZ posT seed minv maxv) \<and>
   clz_defined (mchr_get_1d_hash_int_in_range pos seed minv maxv) \<and>
   clz_defined (mchr_get_2d_hash_int_in_range posX posY seed minv maxv) \<and>
   clz_defined (mchr_get_3d_hash_int_in_range posX posY posZ seed minv maxv) \<and>
   clz_defined (mchr_get_4d_hash_int_in_range posX posY posZ posT seed minv maxv) \<and>
   clz_defined (mchr_get_1d_hash_zero_to_one pos seed) \<and>
   clz_defined (mchr_get_2d_hash_zero_to_one posX posY seed) \<and>
   clz_defined (mchr_get_3d_hash_zero_to_one posX posY posZ seed) \<and>
   clz_defined (mchr_get_4d_hash_zero_to_one posX posY posZ posT seed) \<and>
   clz_defined (mchr_get_1d_hash_neg_one_to_one pos seed) \<and>
   clz_defined (mchr_get_2d_hash_neg_one_to_one posX posY seed) \<and>
   clz_defined (mchr_get_3d_hash_neg_one_to_one posX posY posZ seed) \<and>
   clz_defined (mchr_get_4d_hash_neg_one_to_one posX posY posZ posT seed) \<and>
   clz_defined (mchr_get_1d_chance pos seed p) \<and>
   clz_defined (mchr_get_2d_chance posX posY seed p) \<and>
   clz_defined (mchr_get_3d_chance posX posY posZ seed p) \<and>
   clz_defined (mchr_get_4d_chance posX posY posZ posT seed p)"
proof -
  have a: "upper_bound < 2 \<longrightarrow>
      mchr_get_hash_uint_under_limit index_buffer seed upper_bound = Some (Inr 0)"
    by (simp add: mchr_get_hash_uint_under_limit_def)
  have b: "\<not> upper_bound < 2 \<longrightarrow>
      upper_bound \<noteq> 0 \<and>
      (\<exists>zeros. clz upper_bound = Inr zeros \<and> 0 \<le> zeros \<and> zeros \<le> 30 \<and> 2 \<le> window_bits zeros)"
  proof
    assume "\<not> upper_bound < 2"
    then have two: "2 \<le> upper_bound" by (simp add: not_less)
    from clz_sound [OF two] obtain zeros where
      "clz upper_bound = Inr zeros" "0 \<le> zeros" "zeros \<le> 30" by blast
    moreover from this have "2 \<le> window_bits zeros" by (simp add: window_bits_def)
    moreover from two have "upper_bound \<noteq> 0" by auto
    ultimately show "upper_bound \<noteq> 0 \<and>
      (\<exists>zeros. clz upper_bound = Inr zeros \<and> 0 \<le> zeros \<and> zeros \<le> 30 \<and> 2 \<le> window_bits zeros)"
      by blast
  qed
  show ?thesis
    by (intro conjI a b; simp only: facade_uint_in_range facade_int_in_range
        facade_zero_to_one facade_neg_one_to_one facade_chance under_limit_clz_defined
        uint_in_range_clz_defined int_in_range_clz_defined zero_to_one_clz_defined
        neg_one_to_one_clz_defined chance_clz_defined)
qed

theorem clz_argument_nonzero_witness:
  "(1::mchr_uint) < 2 \<and> mchr_get_hash_uint_under_limit [0] 0 1 = Some (Inr 0) \<and>
   \<not> (10::mchr_uint) < 2 \<and> clz 10 = Inr 28 \<and> 2 \<le> window_bits 28 \<and>
   clz_defined (mchr_get_hash_uint_under_limit [0] 0 10)"
proof -
  have lz: "leading_zeros 32 10 = 28" by code_simp
  have c: "clz 10 = Inr 28" by (simp add: clz_def lz)
  from clz_argument_nonzero [of 1 "[0]" 0] clz_argument_nonzero [of 10 "[0]" 0] c
  show ?thesis by simp
qed

section \<open>Floats from 0.0 to 1.0 and chance\<close>

lemma float_of_uint_exact:
  assumes "unat num \<le> 2 ^ 24"
  shows "float_of_uint num = real (unat num)"
proof (cases "unat num < 2 ^ 24")
  case True
  have "nat (32 - leading_zeros 32 num) \<le> 24"
  proof (cases "num = 0")
    case True
    then show ?thesis by (simp add: leading_zeros_0)
  next
    case False
    have "unat num < 2 ^ 32" using unsigned_less [of num] by simp
    from leading_zeros_bounds [OF this False]
    have b: "0 \<le> leading_zeros 32 num" "2 ^ (31 - nat (leading_zeros 32 num)) \<le> unat num"
      by simp_all
    from b(2) True have p: "(2::nat) ^ (31 - nat (leading_zeros 32 num)) < 2 ^ 24"
      by linarith
    have "(1::nat) < 2" by simp
    from power_less_imp_less_exp [OF this p] have "31 - nat (leading_zeros 32 num) < 24" .
    with b(1) show ?thesis by linarith
  qed
  then show ?thesis by (simp add: float_of_uint_def Let_def)
next
  case False
  with assms have "unat num = 2 ^ 24" by simp
  then have "word_of_nat (unat num) = (word_of_nat (2 ^ 24) :: mchr_uint)" by simp
  then have "num = 0x1000000" by simp
  moreover have "leading_zeros 32 0x1000000 = 7" by code_simp
  ultimately show ?thesis by (simp add: float_of_uint_def Let_def)
qed

lemma le_pow_real: "k \<le> (2::nat) ^ n \<Longrightarrow> real k \<le> 2 ^ n"
  by (simp add: of_nat_le_iff [symmetric] del: of_nat_le_iff)

lemma unit_quotient:
  fixes x c :: real
  assumes "0 \<le> x" "x \<le> c" "0 < c"
  shows "0 \<le> x / c \<and> x / c \<le> 1"
  using assms by simp

lemma priv_zero_one_linear:
  assumes "unat num \<le> 2 ^ 24"
  shows "mchr_priv_uint_to_zero_one num = Inr (real (unat num) / 2 ^ 24)"
proof -
  from assms have le: "num \<le> 0x1000000" by (simp add: word_le_nat_alt)
  show ?thesis
  proof (cases "0x1000000 \<le> num")
    case True
    with le have "num = 0x1000000" by simp
    then show ?thesis by (simp add: mchr_priv_uint_to_zero_one_def)
  next
    case False
    then have "num < 2 ^ 24" by simp
    then have "num AND mask 24 = num" by (rule less_mask_eq)
    then have m: "num AND 0xFFFFFF = num" by (simp add: mask_eq_exp_minus_1)
    have f: "float_of_uint num = real (unat num)"
      using assms by (rule float_of_uint_exact)
    have g: "float_of_uint 0x1000000 = 2 ^ 24"
      using float_of_uint_exact [of "0x1000000"] by simp
    from le False show ?thesis
      by (simp add: mchr_priv_uint_to_zero_one_def m f g)
  qed
qed

lemma zero_to_one_value:
  "\<exists>r::mchr_uint. mchr_get_hash_uint_under_limit buf seed (2 ^ 24 + 1) = Some (Inr r) \<and>
        unat r \<le> 2 ^ 24 \<and>
        mchr_get_hash_zero_to_one buf seed = Some (Inr (real (unat r) / 2 ^ 24)) \<and>
        0 \<le> real (unat r) / 2 ^ 24 \<and> real (unat r) / 2 ^ 24 \<le> 1"
proof -
  have "(2::mchr_uint) \<le> 2 ^ 24 + 1" by simp
  from under_limit_returns [OF this, of buf seed] obtain r where
    r: "mchr_get_hash_uint_under_limit buf seed (2 ^ 24 + 1) = Some (Inr r)"
       "r < 2 ^ 24 + 1" by blast
  from r(2) have le: "unat r \<le> 2 ^ 24" by (simp add: word_less_nat_alt)
  then have "real (unat r) \<le> 2 ^ 24" by (rule le_pow_real)
  moreover have "0 \<le> real (unat r)" by (rule of_nat_0_le_iff)
  ultimately have range: "0 \<le> real (unat r) / 2 ^ 24 \<and> real (unat r) / 2 ^ 24 \<le> 1"
    by (intro unit_quotient) simp_all
  have eq: "(push_bit 24 1 + 1 :: mchr_uint) = 2 ^ 24 + 1" by simp
  have "mchr_get_hash_zero_to_one buf seed = Some (mchr_priv_uint_to_zero_one r)"
    unfolding mchr_get_hash_zero_to_one_def eq r(1) by (simp add: and_then_def)
  also from le have "mchr_priv_uint_to_zero_one r = Inr (real (unat r) / 2 ^ 24)"
    by (rule priv_zero_one_linear)
  finally have "mchr_get_hash_zero_to_one buf seed = Some (Inr (real (unat r) / 2 ^ 24))" .
  with r(1) le range show ?thesis by blast
qed

text \<open>
  Claim C6: \<^verbatim>\<open>mchr_get_hash_zero_to_one\<close> draws some \<open>r\<close> between 0 and \<open>2 ^ 24\<close>, both
  included, from the sampler with the bound \<open>2 ^ 24 + 1\<close> and returns \<open>r / 2 ^ 24\<close>, which
  is neither below 0 nor above 1; the draw \<open>2 ^ 24\<close> is mapped to 1.
\<close>

theorem zero_to_one_closed:
  "(\<exists>r::mchr_uint.
        mchr_get_hash_uint_under_limit index_buffer seed (2 ^ 24 + 1) = Some (Inr r) \<and>
        unat r \<le> 2 ^ 24 \<and>
        mchr_get_hash_zero_to_one index_buffer seed = Some (Inr (real (unat r) / 2 ^ 24)) \<and>
        0 \<le> real (unat r) / 2 ^ 24 \<and> real (unat r) / 2 ^ 24 \<le> 1) \<and>
   mchr_priv_uint_to_zero_one (2 ^ 24) = Inr 1"
proof
  show "\<exists>r::mchr_uint.
        mchr_get_hash_uint_under_limit index_buffer seed (2 ^ 24 + 1) = Some (Inr r) \<and>
        unat r \<le> 2 ^ 24 \<and>
        mchr_get_hash_zero_to_one index_buffer seed = Some (Inr (real (unat r) / 2 ^ 24)) \<and>
        0 \<le> real (unat r) / 2 ^ 24 \<and> real (unat r) / 2 ^ 24 \<le> 1"
    by (rule zero_to_one_value)
next
  show "mchr_priv_uint_to_zero_one (2 ^ 24) = Inr 1"
    by (simp add: mchr_priv_uint_to_zero_one_def)
qed

lemma hash_uint_edge: "mchr_get_hash_uint [0] 2094098940 = 0x1000000"
  by (simp add: mchr_get_hash_uint_def hash_finish_def MCHR_PRIMES_def MCHR_PRIMES_LEN_def
      MCHR_BIT_NOISE1_def MCHR_BIT_NOISE2_def MCHR_BIT_NOISE3_def)

lemma under_limit_edge:
  "mchr_get_hash_uint_under_limit [0] 2094098940 (push_bit 24 1 + 1) = Some (Inr 0x1000000)"
proof -
  have lz: "leading_zeros 32 0x1000001 = 7" by code_simp
  have "draw_loop [0] 2094098940 0x1000001 7 25 (window_mask 7) = Some 0x1000000"
    by (subst draw_loop.simps) (simp add: hash_uint_edge window_mask_def)
  then show ?thesis
    by (simp add: mchr_get_hash_uint_under_limit_def clz_def lz window_bits_def)
qed

lemma zero_to_one_edge: "mchr_get_hash_zero_to_one [0] 2094098940 = Some (Inr 1)"
  by (simp only: mchr_get_hash_zero_to_one_def under_limit_edge and_then_def)
     (simp add: mchr_priv_uint_to_zero_one_def)

lemma chance_is_zero_to_one_below:
  "0 \<le> p \<Longrightarrow> p \<le> 1 \<Longrightarrow>
     mchr_get_chance buf seed p =
       and_then (mchr_get_hash_zero_to_one buf seed) (\<lambda>x. Some (Inr (x < p)))"
  by (simp add: mchr_get_chance_def)

lemma chance_probability_zero: "mchr_get_chance buf seed 0 = Some (Inr False)"
proof -
  from zero_to_one_value [of buf seed] obtain x where
    "mchr_get_hash_zero_to_one buf seed = Some (Inr x)" "0 \<le> x" by blast
  then show ?thesis by (simp add: mchr_get_chance_def and_then_def not_less)
qed

text \<open>
  Claim C2 fails at probability 1: for the one-word buffer holding 0 and the seed
  2094098940 the hash is \<open>2 ^ 24\<close>, the sampler draws \<open>2 ^ 24\<close>,
  \<^verbatim>\<open>mchr_get_hash_zero_to_one\<close> returns 1, and \<^verbatim>\<open>mchr_get_chance\<close> with probability 1
  returns false, as does \<^verbatim>\<open>mchr_get_1d_chance\<close> at the coordinate 0.
\<close>

theorem chance_one_false_at_edge:
  "mchr_get_hash_zero_to_one [0] 2094098940 = Some (Inr 1) \<and>
   mchr_get_chance [0] 2094098940 1 = Some (Inr False) \<and>
   mchr_get_1d_chance 0 2094098940 1 = Some (Inr False)"
  by (simp add: facade_chance mchr_get_chance_def zero_to_one_edge and_then_def)

end
